theory Spec2Isabelle
  imports Main "HOL-Library.Word"
begin

section \<open>The etcd-backed semaphore client (etcd.go)\<close>

text \<open>
  The file etcd.go implements three operations of \<open>EtcdLockClient\<close> on top of the
  interface \<open>KeysAPI\<close>: \<open>Init\<close> (create the initial semaphore), \<open>Get\<close> (read and
  decode it, stamping the store's modification index into it) and \<open>Set\<close> (write it
  back, conditioned on the index it carries). The embedding follows the Go text
  statement by statement. A Go \<open>error\<close> return is an \<open>error option\<close> (\<open>None\<close> is Go's
  nil error), a pair \<open>(result, error)\<close> is a sum (\<open>Inl\<close> the error), a pointer that may
  be nil is an \<open>option\<close>, and each call through the interface takes the state of the
  key-value store and returns the new one. The \<open>context.Context\<close> argument only
  carries cancellation to the store; a cancelled call is one of the errors the
  interface may return and the argument itself is not modelled.
\<close>

subsection \<open>Errors\<close>

text \<open>
  The dynamic types of error values the code meets: \<open>client.Error\<close> of the etcd client
  package (fields Code, Message, Cause, Index), the value made by \<open>errors.New\<close>, the
  errors of \<open>encoding/json\<close>, and any other error a \<open>KeysAPI\<close> implementation may return
  (context cancellation, an unreachable cluster).
\<close>

datatype error =
    ClientError int string string "64 word"
  | ErrorString string
  | JsonError string
  | OtherError string

text \<open>The error codes of the etcd client package that matter here.\<close>

definition ErrorCodeKeyNotFound :: int where
  "ErrorCodeKeyNotFound = 100"

definition ErrorCodeTestFailed :: int where
  "ErrorCodeTestFailed = 101"

definition ErrorCodeNodeExist :: int where
  "ErrorCodeNodeExist = 105"

subsection \<open>The semaphore and its stored form\<close>

text \<open>
  The struct \<open>Semaphore\<close> as etcd.go uses it: \<open>Index\<close> is the etcd modification index
  (uint64), \<open>Semaphore\<close> the number of free slots, \<open>Max\<close> the number of slots, \<open>Holders\<close>
  a slice of holder names, \<open>None\<close> being the nil slice of \<open>Init\<close>. The field \<open>Max\<close> is
  written \<open>Max_sem\<close>, as \<open>Max\<close> is a constant of HOL.
\<close>

record Semaphore =
  Index :: "64 word"
  Semaphore :: int
  Max_sem :: int
  Holders :: "string list option"

text \<open>
  Modelled from the spec: the declaration of the type \<open>Semaphore\<close> with its JSON field
  tags is not part of etcd.go, so what \<open>json.Marshal\<close> writes for it follows the
  persisted record layout of the specification: one structured object with the
  fields capacity, available and holders, and the store-assigned version not in it.
  The string handed to and read from the store is modelled by what \<open>encoding/json\<close>
  makes of it: \<open>Encoded l\<close> is a text that decodes into a fresh \<open>Semaphore\<close> with the
  field values \<open>l\<close>, \<open>Undecodable t\<close> is a text \<open>t\<close> on which decoding fails.
\<close>

record layout =
  capacity :: int
  available :: int
  holders :: "string list option"

datatype payload = Encoded layout | Undecodable string

text \<open>\<open>json.Marshal\<close> on a \<open>Semaphore\<close>: integers and strings always encode.\<close>

definition json_Marshal :: "Semaphore \<Rightarrow> error + payload" where
  "json_Marshal sem =
     Inr (Encoded \<lparr>capacity = Max_sem sem, available = Semaphore sem, holders = Holders sem\<rparr>)"

text \<open>
  \<open>json.Unmarshal(text, sem)\<close>: fills the fields of the target that the layout names
  and leaves \<open>Index\<close> as it is; the code only ever decodes into a fresh target.
\<close>

definition json_Unmarshal :: "payload \<Rightarrow> Semaphore \<Rightarrow> error + Semaphore" where
  "json_Unmarshal b sem =
     (case b of
        Undecodable t \<Rightarrow> Inl (JsonError t)
      | Encoded l \<Rightarrow>
          Inr (sem\<lparr>Semaphore := available l, Max_sem := capacity l, Holders := holders l\<rparr>))"

text \<open>The number of holders, Go's \<open>len(sem.Holders)\<close> (0 for the nil slice).\<close>

definition len_Holders :: "string list option \<Rightarrow> int" where
  "len_Holders hs = (case hs of None \<Rightarrow> 0 | Some xs \<Rightarrow> int (length xs))"

subsection \<open>The interface KeysAPI\<close>

text \<open>
  The parts of \<open>client.Response\<close>, \<open>client.Node\<close> and \<open>client.SetOptions\<close> that the code
  reads or sets. \<open>Set\<close> fills in \<open>PrevIndex\<close> only; every other option keeps its zero
  value. On success an implementation returns a response with its node.
\<close>

record Node =
  Value :: payload
  ModifiedIndex :: "64 word"

record Response =
  Node :: Node

record SetOptions =
  PrevIndex :: "64 word"

text \<open>
  The interface \<open>KeysAPI\<close>, over any state \<open>'s\<close> of the store behind it. The methods
  are named \<open>KeysAPI_Get\<close>, \<open>KeysAPI_Set\<close> and \<open>KeysAPI_Create\<close>, as \<open>Get\<close> and \<open>Set\<close> are
  the methods of the client below. The \<open>opts\<close> of \<open>Get\<close> is always nil and is left out.
\<close>

record 's KeysAPI =
  KeysAPI_Get :: "string \<Rightarrow> 's \<Rightarrow> (error + Response) \<times> 's"
  KeysAPI_Set :: "string \<Rightarrow> payload \<Rightarrow> SetOptions \<Rightarrow> 's \<Rightarrow> (error + Response) \<times> 's"
  KeysAPI_Create :: "string \<Rightarrow> payload \<Rightarrow> 's \<Rightarrow> (error + Response) \<times> 's"

record 's EtcdLockClient =
  keyapi :: "'s KeysAPI"
  keypath :: string

subsection \<open>Init, Get and Set\<close>

text \<open>\<open>Init\<close> sets an initial copy of the semaphore if it does not exist yet.\<close>

definition Init :: "'s EtcdLockClient \<Rightarrow> 's \<Rightarrow> error option \<times> 's" where
  "Init c \<sigma> =
     (let sem = \<lparr>Index = 0, Semaphore = 1, Max_sem = 1, Holders = None\<rparr> in
      case json_Marshal sem of
        Inl err \<Rightarrow> (Some err, \<sigma>)
      | Inr b \<Rightarrow>
          (case KeysAPI_Create (keyapi c) (keypath c) b \<sigma> of
             (Inl err, \<sigma>') \<Rightarrow>
               (case err of
                  ClientError code msg cause idx \<Rightarrow>
                    if code = ErrorCodeNodeExist then (None, \<sigma>') else (Some err, \<sigma>')
                | _ \<Rightarrow> (Some err, \<sigma>'))
           | (Inr resp, \<sigma>') \<Rightarrow> (None, \<sigma>')))"

text \<open>\<open>Get\<close> fetches the semaphore from etcd.\<close>

definition Get :: "'s EtcdLockClient \<Rightarrow> 's \<Rightarrow> (error + Semaphore) \<times> 's" where
  "Get c \<sigma> =
     (case KeysAPI_Get (keyapi c) (keypath c) \<sigma> of
        (Inl err, \<sigma>') \<Rightarrow> (Inl err, \<sigma>')
      | (Inr resp, \<sigma>') \<Rightarrow>
          (let sem = \<lparr>Index = 0, Semaphore = 0, Max_sem = 0, Holders = None\<rparr> in
           case json_Unmarshal (Value (Node resp)) sem of
             Inl err \<Rightarrow> (Inl err, \<sigma>')
           | Inr sem' \<Rightarrow> (Inr (sem'\<lparr>Index := ModifiedIndex (Node resp)\<rparr>), \<sigma>')))"

text \<open>
  \<open>Set\<close> sets a semaphore in etcd. Go passes \<open>sem\<close> by pointer: the second component
  of the result is the semaphore that pointer refers to when \<open>Set\<close> returns.
\<close>

definition Set :: "'s EtcdLockClient \<Rightarrow> Semaphore option \<Rightarrow> 's
    \<Rightarrow> error option \<times> Semaphore option \<times> 's" where
  "Set c sem \<sigma> =
     (case sem of
        None \<Rightarrow> (Some (ErrorString ''cannot set nil semaphore''), sem, \<sigma>)
      | Some s \<Rightarrow>
          (case json_Marshal s of
             Inl err \<Rightarrow> (Some err, sem, \<sigma>)
           | Inr b \<Rightarrow>
               (let setopts = \<lparr>PrevIndex = Index s\<rparr> in
                case KeysAPI_Set (keyapi c) (keypath c) b setopts \<sigma> of
                  (Inl err, \<sigma>') \<Rightarrow> (Some err, sem, \<sigma>')
                | (Inr resp, \<sigma>') \<Rightarrow> (None, sem, \<sigma>'))))"

subsection \<open>A store stub that records the calls\<close>

text \<open>
  An implementation of \<open>KeysAPI\<close> that wraps another one and appends every call it
  receives, with its arguments, to a log kept beside the wrapped store's state.
\<close>

datatype call =
    GetCall string
  | SetCall string payload SetOptions
  | CreateCall string payload

definition recording :: "'s KeysAPI \<Rightarrow> ('s \<times> call list) KeysAPI" where
  "recording api =
     \<lparr>KeysAPI_Get = (\<lambda>key (\<sigma>, log).
        case KeysAPI_Get api key \<sigma> of (r, \<sigma>') \<Rightarrow> (r, (\<sigma>', log @ [GetCall key]))),
      KeysAPI_Set = (\<lambda>key v opts (\<sigma>, log).
        case KeysAPI_Set api key v opts \<sigma> of (r, \<sigma>') \<Rightarrow> (r, (\<sigma>', log @ [SetCall key v opts]))),
      KeysAPI_Create = (\<lambda>key v (\<sigma>, log).
        case KeysAPI_Create api key v \<sigma> of (r, \<sigma>') \<Rightarrow> (r, (\<sigma>', log @ [CreateCall key v])))\<rparr>"

subsection \<open>The key-value store behind the interface\<close>

text \<open>
  Modelled from the spec: the store itself is the etcd cluster, an external
  collaborator of which etcd.go holds only the interface. Its three operations follow
  the specification's section on external interfaces: a linearizable read, an atomic
  create that fails if the key exists, and an atomic compare-and-set that fails if
  the current version of the key is not the expected one. Every successful write
  advances the store's modification counter and stamps the node with it. A failure
  is a \<open>client.Error\<close> carrying the etcd code of its kind and leaves the store as it
  was.
\<close>

record store =
  nodes :: "string \<rightharpoonup> Node"
  index :: "64 word"

definition store_Get :: "string \<Rightarrow> store \<Rightarrow> (error + Response) \<times> store" where
  "store_Get key st =
     (case nodes st key of
        None \<Rightarrow> (Inl (ClientError ErrorCodeKeyNotFound ''Key not found'' key (index st)), st)
      | Some n \<Rightarrow> (Inr \<lparr>Node = n\<rparr>, st))"

definition store_Create :: "string \<Rightarrow> payload \<Rightarrow> store \<Rightarrow> (error + Response) \<times> store" where
  "store_Create key v st =
     (case nodes st key of
        Some n \<Rightarrow> (Inl (ClientError ErrorCodeNodeExist ''Key already exists'' key (index st)), st)
      | None \<Rightarrow>
          (let n = \<lparr>Value = v, ModifiedIndex = index st + 1\<rparr> in
           (Inr \<lparr>Node = n\<rparr>, st\<lparr>nodes := (nodes st)(key \<mapsto> n), index := index st + 1\<rparr>)))"

definition store_Set :: "string \<Rightarrow> payload \<Rightarrow> SetOptions \<Rightarrow> store
    \<Rightarrow> (error + Response) \<times> store" where
  "store_Set key v opts st =
     (case nodes st key of
        None \<Rightarrow> (Inl (ClientError ErrorCodeKeyNotFound ''Key not found'' key (index st)), st)
      | Some old \<Rightarrow>
          if ModifiedIndex old \<noteq> PrevIndex opts
          then (Inl (ClientError ErrorCodeTestFailed ''Compare failed'' key (index st)), st)
          else
            (let n = \<lparr>Value = v, ModifiedIndex = index st + 1\<rparr> in
             (Inr \<lparr>Node = n\<rparr>, st\<lparr>nodes := (nodes st)(key \<mapsto> n), index := index st + 1\<rparr>)))"

definition store_KeysAPI :: "store KeysAPI" where
  "store_KeysAPI =
     \<lparr>KeysAPI_Get = store_Get, KeysAPI_Set = store_Set, KeysAPI_Create = store_Create\<rparr>"

text \<open>The store with no key, and the client of one key on the store.\<close>

definition empty_store :: store where
  "empty_store = \<lparr>nodes = Map.empty, index = 0\<rparr>"

definition store_client :: "string \<Rightarrow> store EtcdLockClient" where
  "store_client k = \<lparr>keyapi = store_KeysAPI, keypath = k\<rparr>"

subsection \<open>Sequences of calls from any number of clients\<close>

text \<open>
  A client holds nothing but the interface and the key path, so the calls that any
  number of clients of one key make, in any interleaving, are one sequence of \<open>Init\<close>,
  \<open>Get\<close> and \<open>Set\<close> calls on the shared store, each \<open>Set\<close> with the semaphore its caller
  passes.
\<close>

datatype op = OpInit | OpGet | OpSet "Semaphore option"

fun step :: "'s EtcdLockClient \<Rightarrow> op \<Rightarrow> 's \<Rightarrow> 's" where
  "step c OpInit \<sigma> = snd (Init c \<sigma>)"
| "step c OpGet \<sigma> = snd (Get c \<sigma>)"
| "step c (OpSet sem) \<sigma> = snd (snd (Set c sem \<sigma>))"

fun run :: "'s EtcdLockClient \<Rightarrow> op list \<Rightarrow> 's \<Rightarrow> 's" where
  "run c [] \<sigma> = \<sigma>"
| "run c (x # xs) \<sigma> = run c xs (step c x \<sigma>)"

text \<open>
  The balance of the semaphore, \<open>available + len(holders) == capacity\<close>, on a
  semaphore value and on the record stored under a key (a key with no record has
  nothing out of balance).
\<close>

definition balanced :: "Semaphore \<Rightarrow> bool" where
  "balanced s = (Semaphore s + len_Holders (Holders s) = Max_sem s)"

definition stored_balanced :: "string \<Rightarrow> store \<Rightarrow> bool" where
  "stored_balanced k st =
     (case nodes st k of
        None \<Rightarrow> True
      | Some n \<Rightarrow>
          (case Value n of
             Encoded l \<Rightarrow> available l + len_Holders (holders l) = capacity l
           | Undecodable t \<Rightarrow> False))"

subsection \<open>Stubs and stores of the worked examples\<close>

text \<open>
  A stub of \<open>KeysAPI\<close> with no store behind it, on which every call fails with the
  given error (an unreachable cluster, a cancelled context).
\<close>

definition failing_KeysAPI :: "error \<Rightarrow> unit KeysAPI" where
  "failing_KeysAPI e =
     \<lparr>KeysAPI_Get = (\<lambda>key \<sigma>. (Inl e, \<sigma>)),
      KeysAPI_Set = (\<lambda>key v opts \<sigma>. (Inl e, \<sigma>)),
      KeysAPI_Create = (\<lambda>key v \<sigma>. (Inl e, \<sigma>))\<rparr>"

text \<open>
  The key \<open>sem\<close> holding the open semaphore at version 1, the same key at version 2
  with the slot taken by \<open>A\<close>, and the key holding a text that is no semaphore.
\<close>

definition open_store :: store where
  "open_store =
     \<lparr>nodes = [''sem'' \<mapsto> \<lparr>Value = Encoded \<lparr>capacity = 1, available = 1, holders = None\<rparr>,
                             ModifiedIndex = 1\<rparr>],
      index = 1\<rparr>"

definition held_store :: store where
  "held_store =
     \<lparr>nodes = [''sem'' \<mapsto> \<lparr>Value = Encoded \<lparr>capacity = 1, available = 0,
                                               holders = Some [''A'']\<rparr>,
                             ModifiedIndex = 2\<rparr>],
      index = 2\<rparr>"

definition corrupt_store :: store where
  "corrupt_store =
     \<lparr>nodes = [''sem'' \<mapsto> \<lparr>Value = Undecodable ''not a semaphore'', ModifiedIndex = 3\<rparr>],
      index = 3\<rparr>"

text \<open>Semaphore values a caller may pass to \<open>Set\<close>: \<open>A\<close> or \<open>B\<close> taking the slot.\<close>

definition taken_by :: "string \<Rightarrow> 64 word \<Rightarrow> Semaphore" where
  "taken_by h v = \<lparr>Index = v, Semaphore = 0, Max_sem = 1, Holders = Some [h]\<rparr>"

section \<open>Properties\<close>

subsection \<open>Unfolding the definitions\<close>

lemmas json_defs = json_Marshal_def json_Unmarshal_def

lemmas store_defs =
  store_client_def store_KeysAPI_def store_Get_def store_Set_def store_Create_def

lemmas example_defs =
  open_store_def held_store_def corrupt_store_def empty_store_def taken_by_def
  failing_KeysAPI_def ErrorCodeKeyNotFound_def ErrorCodeTestFailed_def ErrorCodeNodeExist_def

lemma recording_Get [simp]:
  "KeysAPI_Get (recording api) k (\<sigma>, log) =
     (fst (KeysAPI_Get api k \<sigma>), (snd (KeysAPI_Get api k \<sigma>), log @ [GetCall k]))"
  by (simp add: recording_def split: prod.splits)

lemma recording_Set [simp]:
  "KeysAPI_Set (recording api) k v opts (\<sigma>, log) =
     (fst (KeysAPI_Set api k v opts \<sigma>),
      (snd (KeysAPI_Set api k v opts \<sigma>), log @ [SetCall k v opts]))"
  by (simp add: recording_def split: prod.splits)

lemma recording_Create [simp]:
  "KeysAPI_Create (recording api) k v (\<sigma>, log) =
     (fst (KeysAPI_Create api k v \<sigma>),
      (snd (KeysAPI_Create api k v \<sigma>), log @ [CreateCall k v]))"
  by (simp add: recording_def split: prod.splits)

subsection \<open>Set\<close>

text \<open>
  C8: \<open>Set\<close> with a nil semaphore fails with the error made by
  \<open>errors.New("cannot set nil semaphore")\<close>, whatever the store is, and calls the
  store not once: the log of the recording stub and the state of the store behind
  it are as they were.
\<close>

theorem Set_nil_rejected_locally:
  "Set \<lparr>keyapi = recording api, keypath = k\<rparr> None (\<sigma>, log)
     = (Some (ErrorString ''cannot set nil semaphore''), None, (\<sigma>, log))"
  by (simp add: Set_def)

text \<open>
  C1: for every non-nil semaphore \<open>s\<close>, \<open>Set\<close> calls the store exactly once, whatever the
  store is: the recording stub's log grows by the one call \<open>Set(keypath, payload of s,
  PrevIndex = s.Index)\<close>. On the store of the specification that write can succeed
  only if the key's current modification index equals \<open>s.Index\<close>.
\<close>

theorem Set_issues_one_conditional_write:
  "snd (snd (snd (Set \<lparr>keyapi = recording api, keypath = k\<rparr> (Some s) (\<sigma>, log))))
     = log @ [SetCall k
         (Encoded \<lparr>capacity = Max_sem s, available = Semaphore s, holders = Holders s\<rparr>)
         \<lparr>PrevIndex = Index s\<rparr>]
   \<and> (fst (Set (store_client k) (Some s) st) = None
        \<longrightarrow> (\<exists>n. nodes st k = Some n \<and> ModifiedIndex n = Index s))"
  by (auto simp add: Set_def json_defs store_defs Let_def
           split: prod.splits sum.splits option.splits if_splits)

text \<open>
  On the key at version 1, committing the semaphore fetched at version 1 with the
  slot taken by \<open>A\<close> succeeds, and the one call carries \<open>PrevIndex = 1\<close>.
\<close>

theorem Set_issues_one_conditional_write_witness:
  "fst (Set (store_client ''sem'') (Some (taken_by ''A'' 1)) open_store) = None
   \<and> (\<exists>n. nodes open_store ''sem'' = Some n \<and> ModifiedIndex n = Index (taken_by ''A'' 1))
   \<and> snd (snd (snd (Set \<lparr>keyapi = recording store_KeysAPI, keypath = ''sem''\<rparr>
                       (Some (taken_by ''A'' 1)) (open_store, []))))
       = [SetCall ''sem'' (Encoded \<lparr>capacity = 1, available = 0, holders = Some [''A'']\<rparr>)
            \<lparr>PrevIndex = 1\<rparr>]"
proof -
  have committed: "fst (Set (store_client ''sem'') (Some (taken_by ''A'' 1)) open_store) = None"
    by (simp add: Set_def json_defs store_defs example_defs Let_def)
  note inst = Set_issues_one_conditional_write
    [of store_KeysAPI "''sem''" "taken_by ''A'' 1" open_store "[]" open_store]
  from inst committed have "\<exists>n. nodes open_store ''sem'' = Some n
      \<and> ModifiedIndex n = Index (taken_by ''A'' 1)"
    by blast
  moreover from inst have "snd (snd (snd (Set \<lparr>keyapi = recording store_KeysAPI, keypath = ''sem''\<rparr>
                       (Some (taken_by ''A'' 1)) (open_store, []))))
       = [SetCall ''sem'' (Encoded \<lparr>capacity = 1, available = 0, holders = Some [''A'']\<rparr>)
            \<lparr>PrevIndex = 1\<rparr>]"
    by (simp add: taken_by_def)
  ultimately show ?thesis using committed by blast
qed

text \<open>
  C4: whatever error the interface's \<open>Set\<close> returns, the client's \<open>Set\<close> returns that
  very error value, after that one call and no other (no retry). On the store of the
  specification, a key whose modification index differs from \<open>s.Index\<close> makes \<open>Set\<close>
  return the \<open>client.Error\<close> with code \<open>ErrorCodeTestFailed\<close> and leaves the store as it
  was, and \<open>Set\<close> returns an error of that code in no other situation. \<open>Set\<close> returns
  nil only if the interface's \<open>Set\<close> succeeded, so no failure is swallowed.
\<close>

theorem Set_surfaces_conflict:
  "(\<forall>e \<sigma>'. KeysAPI_Set api k
        (Encoded \<lparr>capacity = Max_sem s, available = Semaphore s, holders = Holders s\<rparr>)
        \<lparr>PrevIndex = Index s\<rparr> \<sigma> = (Inl e, \<sigma>')
      \<longrightarrow> Set \<lparr>keyapi = recording api, keypath = k\<rparr> (Some s) (\<sigma>, log)
           = (Some e, Some s, (\<sigma>', log @ [SetCall k
               (Encoded \<lparr>capacity = Max_sem s, available = Semaphore s, holders = Holders s\<rparr>)
               \<lparr>PrevIndex = Index s\<rparr>])))
   \<and> (\<forall>n. nodes st k = Some n \<and> ModifiedIndex n \<noteq> Index s
      \<longrightarrow> Set (store_client k) (Some s) st
           = (Some (ClientError ErrorCodeTestFailed ''Compare failed'' k (index st)), Some s, st))
   \<and> ((\<exists>msg cause idx. fst (Set (store_client k) (Some s) st)
            = Some (ClientError ErrorCodeTestFailed msg cause idx))
        = (\<exists>n. nodes st k = Some n \<and> ModifiedIndex n \<noteq> Index s))
   \<and> (fst (Set c (Some s) \<sigma>2) = None
      \<longrightarrow> (\<exists>resp. fst (KeysAPI_Set (keyapi c) (keypath c)
            (Encoded \<lparr>capacity = Max_sem s, available = Semaphore s, holders = Holders s\<rparr>)
            \<lparr>PrevIndex = Index s\<rparr> \<sigma>2) = Inr resp))"
  by (auto simp add: Set_def json_defs store_defs Let_def
        ErrorCodeTestFailed_def ErrorCodeKeyNotFound_def
      split: prod.splits sum.splits option.splits if_splits)

text \<open>
  \<open>B\<close> commits with the stale version 1 against the key at version 2: the conflict
  error comes back after one call and the store is unchanged; the same commit
  against the key at version 1 succeeds.
\<close>

theorem Set_surfaces_conflict_witness:
  "Set \<lparr>keyapi = recording store_KeysAPI, keypath = ''sem''\<rparr>
       (Some (taken_by ''B'' 1)) (held_store, [])
     = (Some (ClientError ErrorCodeTestFailed ''Compare failed'' ''sem'' 2),
        Some (taken_by ''B'' 1),
        (held_store, [SetCall ''sem''
           (Encoded \<lparr>capacity = 1, available = 0, holders = Some [''B'']\<rparr>)
           \<lparr>PrevIndex = 1\<rparr>]))
   \<and> Set (store_client ''sem'') (Some (taken_by ''B'' 1)) held_store
     = (Some (ClientError ErrorCodeTestFailed ''Compare failed'' ''sem'' 2),
        Some (taken_by ''B'' 1), held_store)
   \<and> fst (Set (store_client ''sem'') (Some (taken_by ''B'' 1)) open_store) = None
   \<and> (\<exists>resp. fst (KeysAPI_Set (keyapi (store_client ''sem'')) (keypath (store_client ''sem''))
          (Encoded \<lparr>capacity = 1, available = 0, holders = Some [''B'']\<rparr>)
          \<lparr>PrevIndex = 1\<rparr> open_store) = Inr resp)"
proof -
  note inst = Set_surfaces_conflict
    [of store_KeysAPI "''sem''" "taken_by ''B'' 1" held_store "[]" held_store
        "store_client ''sem''" open_store]
  have refused: "KeysAPI_Set store_KeysAPI ''sem''
        (Encoded \<lparr>capacity = Max_sem (taken_by ''B'' 1), available = Semaphore (taken_by ''B'' 1),
                  holders = Holders (taken_by ''B'' 1)\<rparr>)
        \<lparr>PrevIndex = Index (taken_by ''B'' 1)\<rparr> held_store
      = (Inl (ClientError ErrorCodeTestFailed ''Compare failed'' ''sem'' 2), held_store)"
    by (simp add: store_defs example_defs)
  have stale: "nodes held_store ''sem''
        = Some \<lparr>Value = Encoded \<lparr>capacity = 1, available = 0, holders = Some [''A'']\<rparr>,
                ModifiedIndex = 2\<rparr>
      \<and> ModifiedIndex \<lparr>Value = Encoded \<lparr>capacity = 1, available = 0, holders = Some [''A'']\<rparr>,
                ModifiedIndex = 2\<rparr> \<noteq> Index (taken_by ''B'' 1)"
    by (simp add: example_defs)
  have committed: "fst (Set (store_client ''sem'') (Some (taken_by ''B'' 1)) open_store) = None"
    by (simp add: Set_def json_defs store_defs example_defs Let_def)
  from inst refused have one: "Set \<lparr>keyapi = recording store_KeysAPI, keypath = ''sem''\<rparr>
       (Some (taken_by ''B'' 1)) (held_store, [])
     = (Some (ClientError ErrorCodeTestFailed ''Compare failed'' ''sem'' 2),
        Some (taken_by ''B'' 1),
        (held_store, [] @ [SetCall ''sem''
           (Encoded \<lparr>capacity = Max_sem (taken_by ''B'' 1), available = Semaphore (taken_by ''B'' 1),
                  holders = Holders (taken_by ''B'' 1)\<rparr>)
           \<lparr>PrevIndex = Index (taken_by ''B'' 1)\<rparr>]))"
    by blast
  from inst stale have two: "Set (store_client ''sem'') (Some (taken_by ''B'' 1)) held_store
     = (Some (ClientError ErrorCodeTestFailed ''Compare failed'' ''sem'' (index held_store)),
        Some (taken_by ''B'' 1), held_store)"
    by blast
  from inst committed have three:
    "\<exists>resp. fst (KeysAPI_Set (keyapi (store_client ''sem'')) (keypath (store_client ''sem''))
          (Encoded \<lparr>capacity = Max_sem (taken_by ''B'' 1), available = Semaphore (taken_by ''B'' 1),
                  holders = Holders (taken_by ''B'' 1)\<rparr>)
          \<lparr>PrevIndex = Index (taken_by ''B'' 1)\<rparr> open_store) = Inr resp"
    by blast
  have idx: "index held_store = 2"
    by (simp add: held_store_def)
  have flds: "Max_sem (taken_by ''B'' 1) = 1" "Semaphore (taken_by ''B'' 1) = 0"
    "Holders (taken_by ''B'' 1) = Some [''B'']" "Index (taken_by ''B'' 1) = 1"
    by (simp_all add: taken_by_def)
  from one two three committed show ?thesis
    by (simp only: idx flds append_Nil)
qed

text \<open>
  C10: the semaphore the caller's pointer refers to is the same after \<open>Set\<close> as before,
  whatever the outcome. The response of the store, which carries the new version, is
  dropped: replacing every response of the interface's \<open>Set\<close> by any other leaves the
  result of the client's \<open>Set\<close> as it is. On the store of the specification, after a
  successful \<open>Set\<close> of \<open>s\<close> the key carries the store's next modification index, \<open>s.Index\<close>
  is still the index the key had before, and a new \<open>Get\<close> returns \<open>s\<close> with the new index.
\<close>

theorem Set_leaves_semaphore_unchanged:
  "fst (snd (Set c sem \<sigma>)) = sem
   \<and> Set \<lparr>keyapi = api\<lparr>KeysAPI_Set := \<lambda>key v opts x.
              (case KeysAPI_Set api key v opts x of
                 (Inl err, x') \<Rightarrow> (Inl err, x') | (Inr resp, x') \<Rightarrow> (Inr (f resp), x'))\<rparr>,
           keypath = k\<rparr> sem \<sigma>
       = Set \<lparr>keyapi = api, keypath = k\<rparr> sem \<sigma>
   \<and> (fst (Set (store_client k) (Some s) st) = None
      \<longrightarrow> Set (store_client k) (Some s) st
            = (None, Some s, st\<lparr>nodes := (nodes st)(k \<mapsto>
                 \<lparr>Value = Encoded \<lparr>capacity = Max_sem s, available = Semaphore s,
                                    holders = Holders s\<rparr>,
                  ModifiedIndex = index st + 1\<rparr>), index := index st + 1\<rparr>)
          \<and> (\<exists>n. nodes st k = Some n \<and> ModifiedIndex n = Index s)
          \<and> fst (Get (store_client k) (snd (snd (Set (store_client k) (Some s) st))))
              = Inr (s\<lparr>Index := index st + 1\<rparr>))"
  by (auto simp add: Set_def Get_def json_defs store_defs Let_def
      split: prod.splits sum.splits option.splits if_splits)

text \<open>
  \<open>A\<close> commits at version 1: the store moves to version 2, the caller's semaphore still
  says 1, and \<open>Get\<close> returns version 2.
\<close>

theorem Set_leaves_semaphore_unchanged_witness:
  "Set (store_client ''sem'') (Some (taken_by ''A'' 1)) open_store
     = (None, Some (taken_by ''A'' 1), held_store)
   \<and> fst (Get (store_client ''sem'') held_store) = Inr (taken_by ''A'' 2)"
proof -
  have committed: "fst (Set (store_client ''sem'') (Some (taken_by ''A'' 1)) open_store) = None"
    by (simp add: Set_def json_defs store_defs example_defs Let_def)
  have written: "open_store\<lparr>nodes := (nodes open_store)(''sem'' \<mapsto>
                 \<lparr>Value = Encoded \<lparr>capacity = Max_sem (taken_by ''A'' 1),
                                    available = Semaphore (taken_by ''A'' 1),
                                    holders = Holders (taken_by ''A'' 1)\<rparr>,
                  ModifiedIndex = index open_store + 1\<rparr>), index := index open_store + 1\<rparr>
      = held_store"
    by (simp add: example_defs)
  have stamped: "(taken_by ''A'' 1)\<lparr>Index := index open_store + 1\<rparr> = taken_by ''A'' 2"
    by (simp add: example_defs)
  from Set_leaves_semaphore_unchanged
    [where k = "''sem''" and s = "taken_by ''A'' 1" and st = open_store,
     THEN conjunct2, THEN conjunct2, THEN mp, OF committed, unfolded written stamped]
  have one: "Set (store_client ''sem'') (Some (taken_by ''A'' 1)) open_store
      = (None, Some (taken_by ''A'' 1), held_store)"
    and two: "fst (Get (store_client ''sem'')
        (snd (snd (Set (store_client ''sem'') (Some (taken_by ''A'' 1)) open_store))))
      = Inr (taken_by ''A'' 2)"
    by (rule conjunct1, rule conjunct2 [THEN conjunct2])
  from two have "fst (Get (store_client ''sem'') held_store) = Inr (taken_by ''A'' 2)"
    by (simp only: one snd_conv)
  with one show ?thesis
    by blast
qed

subsection \<open>Init\<close>

text \<open>
  C2: when the key is absent, \<open>Init\<close> returns nil and the store then holds, under the
  key, the record with capacity 1, available 1 and the nil (empty) list of holders,
  stamped with the store's next modification index; \<open>Get\<close> reads it back as the
  semaphore with one free slot of one and no holder.
\<close>

theorem Init_creates_open_semaphore:
  "nodes st k = None \<Longrightarrow>
     Init (store_client k) st
       = (None, st\<lparr>nodes := (nodes st)(k \<mapsto>
            \<lparr>Value = Encoded \<lparr>capacity = 1, available = 1, holders = None\<rparr>,
             ModifiedIndex = index st + 1\<rparr>), index := index st + 1\<rparr>)
     \<and> fst (Get (store_client k) (snd (Init (store_client k) st)))
         = Inr \<lparr>Index = index st + 1, Semaphore = 1, Max_sem = 1, Holders = None\<rparr>"
  by (simp add: Init_def Get_def json_defs store_defs Let_def)

text \<open>On the empty store, \<open>Init\<close> of the key \<open>sem\<close> gives the store \<open>open_store\<close>.\<close>

theorem Init_creates_open_semaphore_witness:
  "nodes empty_store ''sem'' = None
   \<and> Init (store_client ''sem'') empty_store = (None, open_store)
   \<and> fst (Get (store_client ''sem'') open_store)
       = Inr \<lparr>Index = 1, Semaphore = 1, Max_sem = 1, Holders = None\<rparr>"
proof -
  have absent: "nodes empty_store ''sem'' = None"
    by (simp add: empty_store_def)
  have opened: "empty_store\<lparr>nodes := (nodes empty_store)(''sem'' \<mapsto>
            \<lparr>Value = Encoded \<lparr>capacity = 1, available = 1, holders = None\<rparr>,
             ModifiedIndex = index empty_store + 1\<rparr>), index := index empty_store + 1\<rparr>
      = open_store"
    by (simp add: empty_store_def open_store_def)
  note inst = Init_creates_open_semaphore [OF absent, unfolded opened]
  from inst have created: "Init (store_client ''sem'') empty_store = (None, open_store)"
    by (rule conjunct1)
  from inst have "fst (Get (store_client ''sem'') (snd (Init (store_client ''sem'') empty_store)))
      = Inr \<lparr>Index = index empty_store + 1, Semaphore = 1, Max_sem = 1, Holders = None\<rparr>"
    by (rule conjunct2)
  then have "fst (Get (store_client ''sem'') open_store)
      = Inr \<lparr>Index = index empty_store + 1, Semaphore = 1, Max_sem = 1, Holders = None\<rparr>"
    by (simp only: created snd_conv)
  then have "fst (Get (store_client ''sem'') open_store)
      = Inr \<lparr>Index = 1, Semaphore = 1, Max_sem = 1, Holders = None\<rparr>"
    by (simp add: empty_store_def)
  with absent created show ?thesis
    by blast
qed

text \<open>
  C5: when the interface's \<open>Create\<close> fails with a \<open>client.Error\<close> whose code is
  \<open>ErrorCodeNodeExist\<close>, whatever its message, cause and index, \<open>Init\<close> returns nil
  after that one call and makes no other; when \<open>Create\<close> fails with any other error,
  \<open>Init\<close> returns that error. On the store of the specification, \<open>Init\<close> on a key
  that exists returns nil and leaves the store, and so the record, as it was.
\<close>

theorem Init_absorbs_node_exist:
  "(\<forall>msg cause idx \<sigma>'. KeysAPI_Create api k
        (Encoded \<lparr>capacity = 1, available = 1, holders = None\<rparr>) \<sigma>
        = (Inl (ClientError ErrorCodeNodeExist msg cause idx), \<sigma>')
      \<longrightarrow> Init \<lparr>keyapi = recording api, keypath = k\<rparr> (\<sigma>, log)
           = (None, (\<sigma>', log @ [CreateCall k
               (Encoded \<lparr>capacity = 1, available = 1, holders = None\<rparr>)])))
   \<and> (\<forall>e \<sigma>'. KeysAPI_Create api k
        (Encoded \<lparr>capacity = 1, available = 1, holders = None\<rparr>) \<sigma> = (Inl e, \<sigma>')
        \<and> (\<forall>msg cause idx. e \<noteq> ClientError ErrorCodeNodeExist msg cause idx)
      \<longrightarrow> Init \<lparr>keyapi = recording api, keypath = k\<rparr> (\<sigma>, log)
           = (Some e, (\<sigma>', log @ [CreateCall k
               (Encoded \<lparr>capacity = 1, available = 1, holders = None\<rparr>)])))
   \<and> (\<forall>n. nodes st k = Some n \<longrightarrow> Init (store_client k) st = (None, st))"
  by (auto simp add: Init_def json_defs store_defs Let_def
      split: prod.splits sum.splits error.splits)

text \<open>
  \<open>Init\<close> on the key held by \<open>A\<close> returns nil and changes nothing; an error of another
  type with the text \<open>Key already exists\<close> is returned to the caller.
\<close>

theorem Init_absorbs_node_exist_witness:
  "Init \<lparr>keyapi = recording store_KeysAPI, keypath = ''sem''\<rparr> (held_store, [])
     = (None, (held_store,
          [CreateCall ''sem'' (Encoded \<lparr>capacity = 1, available = 1, holders = None\<rparr>)]))
   \<and> Init \<lparr>keyapi = recording (failing_KeysAPI (OtherError ''Key already exists'')),
            keypath = ''sem''\<rparr> ((), [])
     = (Some (OtherError ''Key already exists''), ((),
          [CreateCall ''sem'' (Encoded \<lparr>capacity = 1, available = 1, holders = None\<rparr>)]))
   \<and> Init (store_client ''sem'') held_store = (None, held_store)"
proof -
  note on_store = Init_absorbs_node_exist [of store_KeysAPI "''sem''" held_store "[]" held_store]
  note on_stub = Init_absorbs_node_exist
    [of "failing_KeysAPI (OtherError ''Key already exists'')" "''sem''" "()" "[]" held_store]
  have exists: "KeysAPI_Create store_KeysAPI ''sem''
        (Encoded \<lparr>capacity = 1, available = 1, holders = None\<rparr>) held_store
      = (Inl (ClientError ErrorCodeNodeExist ''Key already exists'' ''sem'' 2), held_store)"
    by (simp add: store_defs example_defs)
  have other: "KeysAPI_Create (failing_KeysAPI (OtherError ''Key already exists'')) ''sem''
        (Encoded \<lparr>capacity = 1, available = 1, holders = None\<rparr>) ()
      = (Inl (OtherError ''Key already exists''), ())
      \<and> (\<forall>msg cause idx. OtherError ''Key already exists''
            \<noteq> ClientError ErrorCodeNodeExist msg cause idx)"
    by (simp add: failing_KeysAPI_def)
  have present: "nodes held_store ''sem''
      = Some \<lparr>Value = Encoded \<lparr>capacity = 1, available = 0, holders = Some [''A'']\<rparr>,
              ModifiedIndex = 2\<rparr>"
    by (simp add: held_store_def)
  from on_store exists have one:
    "Init \<lparr>keyapi = recording store_KeysAPI, keypath = ''sem''\<rparr> (held_store, [])
     = (None, (held_store,
          [] @ [CreateCall ''sem'' (Encoded \<lparr>capacity = 1, available = 1, holders = None\<rparr>)]))"
    by blast
  from on_stub other have two:
    "Init \<lparr>keyapi = recording (failing_KeysAPI (OtherError ''Key already exists'')),
            keypath = ''sem''\<rparr> ((), [])
     = (Some (OtherError ''Key already exists''), ((),
          [] @ [CreateCall ''sem'' (Encoded \<lparr>capacity = 1, available = 1, holders = None\<rparr>)]))"
    by blast
  from on_store present have three: "Init (store_client ''sem'') held_store = (None, held_store)"
    by blast
  from one two three show ?thesis
    by (simp only: append_Nil)
qed

subsection \<open>Get\<close>

text \<open>
  C3: when \<open>Get\<close> returns a semaphore, the read through the interface succeeded, and
  the semaphore's \<open>Index\<close> is the \<open>ModifiedIndex\<close> of the node of that very response; the
  other fields are those decoded from the node's value. The client keeps no field
  but the interface and the key path, so no earlier value can come back.
\<close>

theorem Get_stamps_version_of_read:
  "Get c \<sigma> = (Inr sem, \<sigma>') \<Longrightarrow>
     \<exists>resp l. KeysAPI_Get (keyapi c) (keypath c) \<sigma> = (Inr resp, \<sigma>')
       \<and> Value (Node resp) = Encoded l
       \<and> sem = \<lparr>Index = ModifiedIndex (Node resp), Semaphore = available l,
                Max_sem = capacity l, Holders = holders l\<rparr>"
  by (auto simp add: Get_def json_defs Let_def split: prod.splits sum.splits payload.splits)

text \<open>On the key at version 2 held by \<open>A\<close>, \<open>Get\<close> returns that semaphore with \<open>Index = 2\<close>.\<close>

theorem Get_stamps_version_of_read_witness:
  "Get (store_client ''sem'') held_store = (Inr (taken_by ''A'' 2), held_store)
   \<and> (\<exists>resp l. KeysAPI_Get (keyapi (store_client ''sem'')) (keypath (store_client ''sem''))
          held_store = (Inr resp, held_store)
       \<and> Value (Node resp) = Encoded l
       \<and> taken_by ''A'' 2 = \<lparr>Index = ModifiedIndex (Node resp), Semaphore = available l,
                Max_sem = capacity l, Holders = holders l\<rparr>)"
proof -
  have fetched: "Get (store_client ''sem'') held_store = (Inr (taken_by ''A'' 2), held_store)"
    by (simp add: Get_def json_defs store_defs example_defs Let_def)
  from Get_stamps_version_of_read [OF fetched] fetched show ?thesis
    by blast
qed

text \<open>
  C9: \<open>Get\<close> returns the error \<open>e\<close>, and with it no semaphore, exactly when the read
  through the interface fails with \<open>e\<close>, or the read succeeds and the node's value does
  not decode, \<open>e\<close> being the decoding error. On the store of the specification a read
  of an absent key fails with the \<open>client.Error\<close> of code \<open>ErrorCodeKeyNotFound\<close>.
\<close>

theorem Get_fails_on_read_or_decode:
  "((fst (Get c \<sigma>) = Inl e) =
      (fst (KeysAPI_Get (keyapi c) (keypath c) \<sigma>) = Inl e
       \<or> (\<exists>resp t. fst (KeysAPI_Get (keyapi c) (keypath c) \<sigma>) = Inr resp
             \<and> Value (Node resp) = Undecodable t \<and> e = JsonError t)))
   \<and> (nodes st k = None
      \<longrightarrow> Get (store_client k) st
           = (Inl (ClientError ErrorCodeKeyNotFound ''Key not found'' k (index st)), st))"
  by (auto simp add: Get_def json_defs store_defs Let_def
      split: prod.splits sum.splits payload.splits)

text \<open>
  The three failures: the key is absent, the stored text is no semaphore, the
  cluster is unreachable.
\<close>

theorem Get_fails_on_read_or_decode_witness:
  "Get (store_client ''sem'') empty_store
     = (Inl (ClientError ErrorCodeKeyNotFound ''Key not found'' ''sem'' 0), empty_store)
   \<and> fst (Get (store_client ''sem'') corrupt_store) = Inl (JsonError ''not a semaphore'')
   \<and> fst (Get \<lparr>keyapi = failing_KeysAPI (OtherError ''cluster unavailable''),
                keypath = ''sem''\<rparr> ()) = Inl (OtherError ''cluster unavailable'')"
proof -
  have absent: "nodes empty_store ''sem'' = None"
    by (simp add: empty_store_def)
  have idx: "index empty_store = 0"
    by (simp add: empty_store_def)
  have corrupt: "\<exists>resp t.
      fst (KeysAPI_Get (keyapi (store_client ''sem'')) (keypath (store_client ''sem''))
             corrupt_store) = Inr resp
      \<and> Value (Node resp) = Undecodable t \<and> JsonError ''not a semaphore'' = JsonError t"
    by (simp add: store_defs corrupt_store_def)
  have down: "fst (KeysAPI_Get
        (keyapi \<lparr>keyapi = failing_KeysAPI (OtherError ''cluster unavailable''),
                 keypath = ''sem''\<rparr>)
        (keypath \<lparr>keyapi = failing_KeysAPI (OtherError ''cluster unavailable''),
                  keypath = ''sem''\<rparr>) ()) = Inl (OtherError ''cluster unavailable'')"
    by (simp add: failing_KeysAPI_def)
  note on_empty = Get_fails_on_read_or_decode [where st = empty_store and k = "''sem''"]
  note on_corrupt = Get_fails_on_read_or_decode
    [where c = "store_client ''sem''" and \<sigma> = corrupt_store
       and e = "JsonError ''not a semaphore''"]
  note on_stub = Get_fails_on_read_or_decode
    [where c = "\<lparr>keyapi = failing_KeysAPI (OtherError ''cluster unavailable''),
                 keypath = ''sem''\<rparr>"
       and \<sigma> = "()" and e = "OtherError ''cluster unavailable''"]
  from on_empty [THEN conjunct2, THEN mp, OF absent]
  have one: "Get (store_client ''sem'') empty_store
     = (Inl (ClientError ErrorCodeKeyNotFound ''Key not found'' ''sem'' (index empty_store)),
        empty_store)"
    .
  from on_corrupt [THEN conjunct1, THEN iffD2, OF disjI2, OF corrupt]
  have two: "fst (Get (store_client ''sem'') corrupt_store) = Inl (JsonError ''not a semaphore'')"
    .
  from on_stub [THEN conjunct1, THEN iffD2, OF disjI1, OF down]
  have three: "fst (Get \<lparr>keyapi = failing_KeysAPI (OtherError ''cluster unavailable''),
                keypath = ''sem''\<rparr> ()) = Inl (OtherError ''cluster unavailable'')"
    .
  from one two three show ?thesis
    by (simp only: idx)
qed

subsection \<open>The stored payload\<close>

text \<open>
  C7: the payload does not depend on the version: \<open>json.Marshal\<close> gives the same text
  whatever \<open>Index\<close> is; \<open>Init\<close> hands \<open>Create\<close> the record of capacity 1, available 1 and
  no holders; \<open>Set\<close> hands the interface a payload made of \<open>Max\<close>, \<open>Semaphore\<close> and \<open>Holders\<close>
  alone, and the version only as the option \<open>PrevIndex\<close>; decoding a payload leaves the
  \<open>Index\<close> of its target as it was, so the only version a fetched semaphore carries is
  the one \<open>Get\<close> copies from the response.
\<close>

theorem payload_without_version:
  "json_Marshal (s\<lparr>Index := v\<rparr>) = json_Marshal s
   \<and> snd (snd (Init \<lparr>keyapi = recording api, keypath = k\<rparr> (\<sigma>, log)))
       = log @ [CreateCall k (Encoded \<lparr>capacity = 1, available = 1, holders = None\<rparr>)]
   \<and> snd (snd (snd (Set \<lparr>keyapi = recording api, keypath = k\<rparr>
                       (Some (s\<lparr>Index := v\<rparr>)) (\<sigma>, log))))
       = log @ [SetCall k
           (Encoded \<lparr>capacity = Max_sem s, available = Semaphore s, holders = Holders s\<rparr>)
           \<lparr>PrevIndex = v\<rparr>]
   \<and> (\<forall>sem'. json_Unmarshal b sem = Inr sem' \<longrightarrow> Index sem' = Index sem)"
  by (auto simp add: Init_def Set_def json_defs Let_def
      split: prod.splits sum.splits error.splits payload.splits)

text \<open>
  Decoding the record held by \<open>A\<close> into a target with \<open>Index = 7\<close> keeps the 7, and the
  semaphore of \<open>A\<close> encodes the same at versions 1 and 2.
\<close>

theorem payload_without_version_witness:
  "json_Unmarshal (Encoded \<lparr>capacity = 1, available = 0, holders = Some [''A'']\<rparr>)
       \<lparr>Index = 7, Semaphore = 0, Max_sem = 0, Holders = None\<rparr> = Inr (taken_by ''A'' 7)
   \<and> Index (taken_by ''A'' 7) = Index \<lparr>Index = 7, Semaphore = 0, Max_sem = 0, Holders = None\<rparr>
   \<and> json_Marshal ((taken_by ''A'' 1)\<lparr>Index := 2\<rparr>) = json_Marshal (taken_by ''A'' 1)"
proof -
  note inst = payload_without_version
    [where s = "taken_by ''A'' 1" and v = 2 and api = store_KeysAPI and k = "''sem''"
       and \<sigma> = open_store and log = "[]"
       and b = "Encoded \<lparr>capacity = 1, available = 0, holders = Some [''A'']\<rparr>"
       and sem = "\<lparr>Index = 7, Semaphore = 0, Max_sem = 0, Holders = None\<rparr>"]
  have decoded: "json_Unmarshal (Encoded \<lparr>capacity = 1, available = 0, holders = Some [''A'']\<rparr>)
       \<lparr>Index = 7, Semaphore = 0, Max_sem = 0, Holders = None\<rparr> = Inr (taken_by ''A'' 7)"
    by (simp add: json_Unmarshal_def taken_by_def)
  from inst decoded show ?thesis
    by blast
qed

subsection \<open>The balance under interleaved calls\<close>

text \<open>
  One call keeps the stored record balanced: \<open>Init\<close> writes the open semaphore or
  nothing, \<open>Get\<close> writes nothing, \<open>Set\<close> writes the semaphore it is given or nothing.
\<close>

lemma step_keeps_balance:
  assumes bal: "stored_balanced k st"
    and given: "\<forall>s. x = OpSet (Some s) \<longrightarrow> balanced s"
  shows "stored_balanced k (step (store_client k) x st)"
proof (cases x)
  case OpInit
  with bal show ?thesis
    by (auto simp add: Init_def json_defs store_defs Let_def stored_balanced_def
          len_Holders_def split: option.splits)
next
  case OpGet
  with bal show ?thesis
    by (auto simp add: Get_def json_defs store_defs Let_def stored_balanced_def
          split: option.splits payload.splits)
next
  case (OpSet sem)
  show ?thesis
  proof (cases sem)
    case None
    with bal show ?thesis
      by (simp add: OpSet Set_def)
  next
    case (Some s)
    with given OpSet have "balanced s"
      by simp
    with bal show ?thesis
      by (auto simp add: OpSet Some Set_def json_defs store_defs Let_def stored_balanced_def
            balanced_def split: option.splits)
  qed
qed

text \<open>
  \<open>Set\<close> checks nothing about the semaphore it is given. After \<open>Init\<close> and a \<open>Get\<close> at
  version 1, a caller that adds the holder \<open>A\<close> and leaves \<open>Semaphore\<close> at 1 commits a
  record with \<open>available + len(holders) = 2\<close> and \<open>capacity = 1\<close>.
\<close>

theorem Set_writes_unbalanced_counterexample:
  "\<not> stored_balanced ''sem''
       (run (store_client ''sem'')
          [OpInit, OpGet,
           OpSet (Some \<lparr>Index = 1, Semaphore = 1, Max_sem = 1, Holders = Some [''A'']\<rparr>)]
          empty_store)"
  by (simp add: Init_def Get_def Set_def json_defs store_defs Let_def stored_balanced_def
        len_Holders_def example_defs)

text \<open>
  C6 (amended): the record that \<open>Init\<close> creates is balanced, and \<open>Set\<close> writes the
  semaphore it is given and nothing else. So on the store of the specification,
  from a key that is absent or holds a balanced record, after any sequence of \<open>Init\<close>,
  \<open>Get\<close> and \<open>Set\<close> calls in which every semaphore passed to \<open>Set\<close> is balanced, the key
  is absent or holds a balanced record.
\<close>

theorem balance_kept_by_balanced_commits:
  "stored_balanced k st \<Longrightarrow> (\<forall>s. OpSet (Some s) \<in> set ops \<longrightarrow> balanced s)
     \<Longrightarrow> stored_balanced k (run (store_client k) ops st)"
proof (induction ops arbitrary: st)
  case Nil
  then show ?case by simp
next
  case (Cons x xs)
  from Cons.prems have "stored_balanced k (step (store_client k) x st)"
    by (intro step_keeps_balance) auto
  moreover from Cons.prems have "\<forall>s. OpSet (Some s) \<in> set xs \<longrightarrow> balanced s"
    by simp
  ultimately have "stored_balanced k (run (store_client k) xs (step (store_client k) x st))"
    by (rule Cons.IH)
  then show ?case by simp
qed

text \<open>
  \<open>A\<close> and \<open>B\<close> both fetch the open semaphore at version 1 and both commit the slot
  as taken by themselves: the commit of \<open>A\<close> succeeds, that of \<open>B\<close> fails, and the record
  stays balanced, held by \<open>A\<close> at version 2.
\<close>

theorem balance_kept_by_balanced_commits_witness:
  "stored_balanced ''sem'' empty_store
   \<and> balanced (taken_by ''A'' 1) \<and> balanced (taken_by ''B'' 1)
   \<and> stored_balanced ''sem''
       (run (store_client ''sem'')
          [OpInit, OpGet, OpGet, OpSet (Some (taken_by ''A'' 1)), OpSet (Some (taken_by ''B'' 1))]
          empty_store)
   \<and> nodes (run (store_client ''sem'')
          [OpInit, OpGet, OpGet, OpSet (Some (taken_by ''A'' 1)), OpSet (Some (taken_by ''B'' 1))]
          empty_store) ''sem''
       = Some \<lparr>Value = Encoded \<lparr>capacity = 1, available = 0, holders = Some [''A'']\<rparr>,
               ModifiedIndex = 2\<rparr>"
proof -
  have start: "stored_balanced ''sem'' empty_store"
    by (simp add: stored_balanced_def empty_store_def)
  have a: "balanced (taken_by ''A'' 1)" and b: "balanced (taken_by ''B'' 1)"
    by (simp_all add: balanced_def taken_by_def len_Holders_def)
  have commits: "\<forall>s. OpSet (Some s) \<in> set [OpInit, OpGet, OpGet,
      OpSet (Some (taken_by ''A'' 1)), OpSet (Some (taken_by ''B'' 1))] \<longrightarrow> balanced s"
    using a b by auto
  have final: "nodes (run (store_client ''sem'')
          [OpInit, OpGet, OpGet, OpSet (Some (taken_by ''A'' 1)), OpSet (Some (taken_by ''B'' 1))]
          empty_store) ''sem''
       = Some \<lparr>Value = Encoded \<lparr>capacity = 1, available = 0, holders = Some [''A'']\<rparr>,
               ModifiedIndex = 2\<rparr>"
    by (simp add: Init_def Get_def Set_def json_defs store_defs Let_def example_defs)
  from balance_kept_by_balanced_commits [OF start commits] start a b final show ?thesis
    by blast
qed

end
